theory Spec2Isabelle
  imports Main "HOL-Library.Word"
begin

section \<open>Errors, buffers and callbacks\<close>

text \<open>
  Modelled from the spec: the declaration of the namespace \<^verbatim>\<open>ErrorCodes\<close> is not part of
  this source tree.  The only code the interface itself names is
  \<^verbatim>\<open>ErrorCodes::NOT_IMPLEMENTED\<close>; the three other kinds are the ones the error taxonomy of
  the specification lists (TypeMismatch, TruncatedInput, MalformedEncoding).
\<close>

datatype ErrorCode = NOT_IMPLEMENTED | TYPE_MISMATCH | TRUNCATED_INPUT | MALFORMED_ENCODING

text \<open>\<^verbatim>\<open>Exception(msg, code)\<close>: a thrown exception is a value carrying its message and code.\<close>

datatype Exception = Exception (message: string) (code: ErrorCode)

type_synonym byte = "8 word"

text \<open>
  A \<^verbatim>\<open>WriteBuffer\<close> is the sequence of bytes written so far, a \<^verbatim>\<open>ReadBuffer\<close> the bytes
  still to be read.  Both are passed by non-const reference, so a method returns the
  buffer it leaves behind, also when it throws.
\<close>

type_synonym WriteBuffer = "byte list"
type_synonym ReadBuffer = "byte list"

text \<open>
  \<^verbatim>\<open>typedef boost::function<size_t()> WriteCallback\<close>: a nullary function object with
  hidden state \<open>'s\<close> returning a row index; the empty function object
  \<^verbatim>\<open>WriteCallback()\<close> is \<open>None\<close>.  \<^verbatim>\<open>size_t\<close> is \<open>nat\<close>: no arithmetic is done on it here.
\<close>

type_synonym 's WriteCallback = "('s \<Rightarrow> nat \<times> 's) option"


section \<open>The interface \<^verbatim>\<open>IDataType\<close>\<close>

text \<open>
  An object of a concrete subclass is the table of its method implementations.  \<open>'f\<close> is
  \<^verbatim>\<open>Field\<close>, \<open>'c\<close> is \<^verbatim>\<open>IColumn\<close>, \<open>'s\<close> the state captured by a write callback and \<open>'d\<close> what
  \<^verbatim>\<open>clone\<close> hands back (\<^verbatim>\<open>SharedPtr<IDataType>\<close>; a record cannot mention its own type).

  Every method is declared \<^verbatim>\<open>const\<close>, so an implementation reads the object and its
  arguments and returns new contents only for the parameters taken by non-const
  reference, together with the exception it threw, if any:
  \<^item> \<^verbatim>\<open>(const Field &, WriteBuffer &)\<close> yields the buffer;
  \<^item> \<^verbatim>\<open>(Field &, ReadBuffer &)\<close> yields the field and the buffer;
  \<^item> \<^verbatim>\<open>(const IColumn &, WriteBuffer &, WriteCallback)\<close> yields the buffer and the state the
    callback ended in;
  \<^item> \<^verbatim>\<open>(IColumn &, ReadBuffer &, size_t)\<close> yields the column and the buffer.

  The two methods that have a body in the interface, \<^verbatim>\<open>isNumeric\<close> and \<^verbatim>\<open>getSizeOfField\<close>,
  are slots that a subclass may leave empty (\<open>None\<close>: not overridden).
\<close>

record ('f, 'c, 's, 'd) IDataType =
  getName :: "string"
  isNumeric_override :: "bool option"
  clone :: "'d"
  serializeBinary :: "'f \<Rightarrow> WriteBuffer \<Rightarrow> Exception option \<times> WriteBuffer"
  deserializeBinary :: "'f \<Rightarrow> ReadBuffer \<Rightarrow> Exception option \<times> 'f \<times> ReadBuffer"
  serializeBinary_column ::
    "'c \<Rightarrow> WriteBuffer \<Rightarrow> 's WriteCallback \<Rightarrow> 's \<Rightarrow> Exception option \<times> WriteBuffer \<times> 's"
  deserializeBinary_column ::
    "'c \<Rightarrow> ReadBuffer \<Rightarrow> nat \<Rightarrow> Exception option \<times> 'c \<times> ReadBuffer"
  serializeText :: "'f \<Rightarrow> WriteBuffer \<Rightarrow> Exception option \<times> WriteBuffer"
  deserializeText :: "'f \<Rightarrow> ReadBuffer \<Rightarrow> Exception option \<times> 'f \<times> ReadBuffer"
  serializeTextEscaped :: "'f \<Rightarrow> WriteBuffer \<Rightarrow> Exception option \<times> WriteBuffer"
  deserializeTextEscaped :: "'f \<Rightarrow> ReadBuffer \<Rightarrow> Exception option \<times> 'f \<times> ReadBuffer"
  serializeTextQuoted :: "'f \<Rightarrow> WriteBuffer \<Rightarrow> bool \<Rightarrow> Exception option \<times> WriteBuffer"
  deserializeTextQuoted :: "'f \<Rightarrow> ReadBuffer \<Rightarrow> bool \<Rightarrow> Exception option \<times> 'f \<times> ReadBuffer"
  createColumn :: "'c"
  createConstColumn :: "nat \<Rightarrow> 'f \<Rightarrow> Exception + 'c"
  getDefault :: "'f"
  getSizeOfField_override :: "(Exception + nat) option"


subsection \<open>The methods with a body\<close>

text \<open>\<^verbatim>\<open>virtual bool isNumeric() const { return false; }\<close>\<close>

definition IDataType_isNumeric :: "('f, 'c, 's, 'd) IDataType \<Rightarrow> bool" where
  "IDataType_isNumeric d = False"

definition isNumeric :: "('f, 'c, 's, 'd) IDataType \<Rightarrow> bool" where
  "isNumeric d =
     (case isNumeric_override d of
        None \<Rightarrow> IDataType_isNumeric d
      | Some b \<Rightarrow> b)"

text \<open>
  \<^verbatim>\<open>virtual size_t getSizeOfField() const { throw Exception("getSizeOfField() method is not
  implemented for data type " + getName(), ErrorCodes::NOT_IMPLEMENTED); }\<close>
\<close>

definition IDataType_getSizeOfField :: "('f, 'c, 's, 'd) IDataType \<Rightarrow> Exception + nat" where
  "IDataType_getSizeOfField d =
     Inl (Exception (''getSizeOfField() method is not implemented for data type '' @ getName d)
            NOT_IMPLEMENTED)"

definition getSizeOfField :: "('f, 'c, 's, 'd) IDataType \<Rightarrow> Exception + nat" where
  "getSizeOfField d =
     (case getSizeOfField_override d of
        None \<Rightarrow> IDataType_getSizeOfField d
      | Some r \<Rightarrow> r)"


subsection \<open>Default arguments\<close>

text \<open>
  \<^verbatim>\<open>serializeTextQuoted(const Field &, WriteBuffer &, bool compatible = false)\<close> and
  \<^verbatim>\<open>deserializeTextQuoted(Field &, ReadBuffer &, bool compatible = false)\<close>: a call through the
  interface may leave the flag out (\<open>None\<close>), and the declaration supplies it.
\<close>

definition serializeTextQuoted_compatible :: "bool option \<Rightarrow> bool" where
  "serializeTextQuoted_compatible arg = (case arg of None \<Rightarrow> False | Some c \<Rightarrow> c)"

definition deserializeTextQuoted_compatible :: "bool option \<Rightarrow> bool" where
  "deserializeTextQuoted_compatible arg = (case arg of None \<Rightarrow> False | Some c \<Rightarrow> c)"

definition call_serializeTextQuoted ::
  "('f, 'c, 's, 'd) IDataType \<Rightarrow> 'f \<Rightarrow> WriteBuffer \<Rightarrow> bool option \<Rightarrow> Exception option \<times> WriteBuffer"
where
  "call_serializeTextQuoted d field ostr arg =
     serializeTextQuoted d field ostr (serializeTextQuoted_compatible arg)"

definition call_deserializeTextQuoted ::
  "('f, 'c, 's, 'd) IDataType \<Rightarrow> 'f \<Rightarrow> ReadBuffer \<Rightarrow> bool option
     \<Rightarrow> Exception option \<times> 'f \<times> ReadBuffer"
where
  "call_deserializeTextQuoted d field istr arg =
     deserializeTextQuoted d field istr (deserializeTextQuoted_compatible arg)"

text \<open>
  \<^verbatim>\<open>serializeBinary(const IColumn &, WriteBuffer &, WriteCallback callback = WriteCallback())\<close>:
  a call that leaves the callback out passes the empty function object.
\<close>

definition call_serializeBinary_column ::
  "('f, 'c, 's, 'd) IDataType \<Rightarrow> 'c \<Rightarrow> WriteBuffer \<Rightarrow> 's WriteCallback option \<Rightarrow> 's
     \<Rightarrow> Exception option \<times> WriteBuffer \<times> 's"
where
  "call_serializeBinary_column d column ostr arg s =
     serializeBinary_column d column ostr (case arg of None \<Rightarrow> None | Some cb \<Rightarrow> cb) s"



section \<open>Calling a method on an object\<close>

text \<open>
  What a caller can observe around one call through the interface: the object the method
  is called on, the arguments it passes (the function object's captured state included),
  and afterwards the exception thrown, if any, and the value returned.
\<close>

datatype ('f, 'c, 'd) retval =
  Void | RetString string | RetBool bool | RetType 'd | RetColumn 'c | RetField 'f | RetSize nat

record ('f, 'c, 's, 'd) call_frame =
  this :: "('f, 'c, 's, 'd) IDataType"
  arg_field :: "'f"
  arg_column :: "'c"
  arg_ostr :: "WriteBuffer"
  arg_istr :: "ReadBuffer"
  callback_state :: "'s"
  thrown :: "Exception option"
  returned :: "('f, 'c, 'd) retval"

text \<open>The methods of the interface, in the order of the header, with their value arguments.\<close>

datatype 's operation =
    M_getName
  | M_isNumeric
  | M_clone
  | M_serializeBinary
  | M_deserializeBinary
  | M_serializeBinary_column "'s WriteCallback option"
  | M_deserializeBinary_column nat
  | M_serializeText
  | M_deserializeText
  | M_serializeTextEscaped
  | M_deserializeTextEscaped
  | M_serializeTextQuoted "bool option"
  | M_deserializeTextQuoted "bool option"
  | M_createColumn
  | M_createConstColumn nat
  | M_getDefault
  | M_getSizeOfField

definition wrote ::
  "('f, 'c, 's, 'd) call_frame \<Rightarrow> Exception option \<times> WriteBuffer \<Rightarrow> ('f, 'c, 's, 'd) call_frame"
where
  "wrote w r = (case r of (e, ostr) \<Rightarrow> w\<lparr>arg_ostr := ostr, thrown := e, returned := Void\<rparr>)"

definition read_field ::
  "('f, 'c, 's, 'd) call_frame \<Rightarrow> Exception option \<times> 'f \<times> ReadBuffer
     \<Rightarrow> ('f, 'c, 's, 'd) call_frame"
where
  "read_field w r =
     (case r of (e, field, istr) \<Rightarrow>
        w\<lparr>arg_field := field, arg_istr := istr, thrown := e, returned := Void\<rparr>)"

fun invoke :: "'s operation \<Rightarrow> ('f, 'c, 's, 'd) call_frame \<Rightarrow> ('f, 'c, 's, 'd) call_frame" where
  "invoke M_getName w = w\<lparr>thrown := None, returned := RetString (getName (this w))\<rparr>"
| "invoke M_isNumeric w = w\<lparr>thrown := None, returned := RetBool (isNumeric (this w))\<rparr>"
| "invoke M_clone w = w\<lparr>thrown := None, returned := RetType (clone (this w))\<rparr>"
| "invoke M_serializeBinary w = wrote w (serializeBinary (this w) (arg_field w) (arg_ostr w))"
| "invoke M_deserializeBinary w =
     read_field w (deserializeBinary (this w) (arg_field w) (arg_istr w))"
| "invoke (M_serializeBinary_column callback) w =
     (case call_serializeBinary_column (this w) (arg_column w) (arg_ostr w) callback
             (callback_state w) of
        (e, ostr, s) \<Rightarrow>
          w\<lparr>arg_ostr := ostr, callback_state := s, thrown := e, returned := Void\<rparr>)"
| "invoke (M_deserializeBinary_column limit) w =
     (case deserializeBinary_column (this w) (arg_column w) (arg_istr w) limit of
        (e, column, istr) \<Rightarrow>
          w\<lparr>arg_column := column, arg_istr := istr, thrown := e, returned := Void\<rparr>)"
| "invoke M_serializeText w = wrote w (serializeText (this w) (arg_field w) (arg_ostr w))"
| "invoke M_deserializeText w =
     read_field w (deserializeText (this w) (arg_field w) (arg_istr w))"
| "invoke M_serializeTextEscaped w =
     wrote w (serializeTextEscaped (this w) (arg_field w) (arg_ostr w))"
| "invoke M_deserializeTextEscaped w =
     read_field w (deserializeTextEscaped (this w) (arg_field w) (arg_istr w))"
| "invoke (M_serializeTextQuoted compatible) w =
     wrote w (call_serializeTextQuoted (this w) (arg_field w) (arg_ostr w) compatible)"
| "invoke (M_deserializeTextQuoted compatible) w =
     read_field w (call_deserializeTextQuoted (this w) (arg_field w) (arg_istr w) compatible)"
| "invoke M_createColumn w = w\<lparr>thrown := None, returned := RetColumn (createColumn (this w))\<rparr>"
| "invoke (M_createConstColumn sz) w =
     (case createConstColumn (this w) sz (arg_field w) of
        Inl e \<Rightarrow> w\<lparr>thrown := Some e, returned := Void\<rparr>
      | Inr column \<Rightarrow> w\<lparr>thrown := None, returned := RetColumn column\<rparr>)"
| "invoke M_getDefault w = w\<lparr>thrown := None, returned := RetField (getDefault (this w))\<rparr>"
| "invoke M_getSizeOfField w =
     (case getSizeOfField (this w) of
        Inl e \<Rightarrow> w\<lparr>thrown := Some e, returned := Void\<rparr>
      | Inr n \<Rightarrow> w\<lparr>thrown := None, returned := RetSize n\<rparr>)"


section \<open>The write callback protocol\<close>

text \<open>
  What a bulk write does, in order, is recorded as a list of events, so that the order of
  callback calls and row encodings can be stated.  The column is the list of its rows.
\<close>

datatype event = CallbackInvoked nat | RowEncoded nat

record 's writer =
  w_ostr :: "WriteBuffer"
  w_callback_state :: "'s"
  w_events :: "event list"
  w_thrown :: "Exception option"

text \<open>
  Modelled from the spec: the callback check in the body of a concrete type's
  \<^verbatim>\<open>serializeBinary(const IColumn &, WriteBuffer &, WriteCallback)\<close>.  The interface declares
  the method pure virtual; the bodies live in the concrete data types, which are not part of
  this source tree.  The specification: "the callback is invoked immediately before
  encoding row 0 if present, and thereafter invoked again exactly when the row count
  written so far reaches the index it most recently returned; its return value is the next
  trigger index.  No callback supplied: pure sequential encode with no extra calls."  The
  comment in the header agrees: the callback is called for value 0 and returns the index
  of the next value it is to be called for.  Before row \<open>i\<close> (\<open>i\<close> rows are written), the
  pending trigger is \<open>next_point\<close>, which starts at 0.
\<close>

definition callback_step :: "'s WriteCallback \<Rightarrow> nat \<Rightarrow> nat \<Rightarrow> 's writer \<Rightarrow> nat \<times> 's writer" where
  "callback_step callback i next_point st =
     (case callback of
        None \<Rightarrow> (next_point, st)
      | Some f \<Rightarrow>
          if i = next_point
          then (case f (w_callback_state st) of
                  (n, s) \<Rightarrow>
                    (n, st\<lparr>w_callback_state := s,
                           w_events := w_events st @ [CallbackInvoked i]\<rparr>))
          else (next_point, st))"

text \<open>
  Modelled from the spec: the loop over the rows in the same missing body.  The
  specification: it "writes every element's binary encoding in row order", it "fails with
  TypeMismatch if any element is incompatible", and "the loop terminates normally when all
  rows are written, regardless of pending callback triggers beyond the column length".
  \<open>enc\<close> writes one element; an exception it throws ends the loop.
\<close>

fun serializeBinary_rows ::
  "('f \<Rightarrow> WriteBuffer \<Rightarrow> Exception option \<times> WriteBuffer) \<Rightarrow> 's WriteCallback \<Rightarrow> 'f list
     \<Rightarrow> nat \<Rightarrow> nat \<Rightarrow> 's writer \<Rightarrow> 's writer"
where
  "serializeBinary_rows enc callback [] i next_point st = st"
| "serializeBinary_rows enc callback (v # vs) i next_point st =
     (case callback_step callback i next_point st of
        (next_point', st1) \<Rightarrow>
          (case enc v (w_ostr st1) of
             (Some e, ostr) \<Rightarrow> st1\<lparr>w_ostr := ostr, w_thrown := Some e\<rparr>
           | (None, ostr) \<Rightarrow>
               serializeBinary_rows enc callback vs (Suc i) next_point'
                 (st1\<lparr>w_ostr := ostr, w_events := w_events st1 @ [RowEncoded i]\<rparr>)))"

text \<open>
  Modelled from the spec: the whole missing body, for a type that writes each element with
  its own single-value \<^verbatim>\<open>serializeBinary\<close>, starting at row 0 with the trigger at row 0.
\<close>

definition serializeBinary_column_loop ::
  "('f, 'c, 's, 'd) IDataType \<Rightarrow> 'f list \<Rightarrow> WriteBuffer \<Rightarrow> 's WriteCallback \<Rightarrow> 's \<Rightarrow> 's writer"
where
  "serializeBinary_column_loop d column ostr callback s =
     serializeBinary_rows (serializeBinary d) callback column 0 0
       \<lparr>w_ostr = ostr, w_callback_state = s, w_events = [], w_thrown = None\<rparr>"

text \<open>The rows at which the callback was called, in the order of the calls.\<close>

fun fired :: "event list \<Rightarrow> nat list" where
  "fired [] = []"
| "fired (CallbackInvoked i # es) = i # fired es"
| "fired (RowEncoded i # es) = fired es"

text \<open>
  The events of rows \<open>i, \<dots>, i + n - 1\<close> when the callback is called at exactly the rows of
  \<open>points\<close>, each call immediately before the encoding of its row.
\<close>

definition scheduled_events :: "nat list \<Rightarrow> nat \<Rightarrow> nat \<Rightarrow> event list" where
  "scheduled_events points i n =
     concat (map (\<lambda>j. (if j \<in> set points then [CallbackInvoked j] else []) @ [RowEncoded j])
               [i ..< i + n])"

text \<open>The bytes of a purely sequential encode of the rows.\<close>

definition encode_rows ::
  "('f \<Rightarrow> WriteBuffer \<Rightarrow> Exception option \<times> WriteBuffer) \<Rightarrow> 'f list \<Rightarrow> WriteBuffer \<Rightarrow> WriteBuffer"
where
  "encode_rows enc vs ostr = fold (\<lambda>v out. snd (enc v out)) vs ostr"

text \<open>The indices returned by the first \<open>k\<close> calls of a callback, and the state it is left in.\<close>

fun callback_returns :: "('s \<Rightarrow> nat \<times> 's) \<Rightarrow> nat \<Rightarrow> 's \<Rightarrow> nat list \<times> 's" where
  "callback_returns f 0 s = ([], s)"
| "callback_returns f (Suc k) s =
     (case f s of (n, s') \<Rightarrow>
        (case callback_returns f k s' of (ns, s'') \<Rightarrow> (n # ns, s'')))"


section \<open>A sample data type\<close>

text \<open>
  A small concrete subclass on which the statements below are instantiated: fields are
  natural numbers, written as one byte each; columns are lists, written row by row with
  the loop above and read back one byte per row; neither of the two methods with a body
  is overridden.  Its callback state is the list of indices still to return.
\<close>

definition sample_write :: "nat \<Rightarrow> WriteBuffer \<Rightarrow> Exception option \<times> WriteBuffer" where
  "sample_write v ostr =
     (if v < 256 then (None, ostr @ [of_nat v])
      else (Some (Exception ''value out of range'' TYPE_MISMATCH), ostr))"

definition sample_read :: "nat \<Rightarrow> ReadBuffer \<Rightarrow> Exception option \<times> nat \<times> ReadBuffer" where
  "sample_read field istr =
     (case istr of
        [] \<Rightarrow> (Some (Exception ''unexpected end of stream'' TRUNCATED_INPUT), field, [])
      | b # rest \<Rightarrow> (None, unat b, rest))"

definition sample_write_column ::
  "nat list \<Rightarrow> WriteBuffer \<Rightarrow> nat list WriteCallback \<Rightarrow> nat list
     \<Rightarrow> Exception option \<times> WriteBuffer \<times> nat list"
where
  "sample_write_column column ostr callback s =
     (let st = serializeBinary_rows sample_write callback column 0 0
                 \<lparr>w_ostr = ostr, w_callback_state = s, w_events = [], w_thrown = None\<rparr>
      in (w_thrown st, w_ostr st, w_callback_state st))"

definition sample_type :: "(nat, nat list, nat list, string) IDataType" where
  "sample_type =
     \<lparr>getName = ''Sample'',
      isNumeric_override = None,
      clone = ''Sample'',
      serializeBinary = sample_write,
      deserializeBinary = sample_read,
      serializeBinary_column = sample_write_column,
      deserializeBinary_column =
        (\<lambda>column istr limit. (None, column @ map unat (take limit istr), drop limit istr)),
      serializeText = sample_write,
      deserializeText = sample_read,
      serializeTextEscaped = sample_write,
      deserializeTextEscaped = sample_read,
      serializeTextQuoted = (\<lambda>field ostr compatible. sample_write field ostr),
      deserializeTextQuoted = (\<lambda>field istr compatible. sample_read field istr),
      createColumn = [],
      createConstColumn = (\<lambda>sz field. Inr (replicate sz field)),
      getDefault = 0,
      getSizeOfField_override = None\<rparr>"

definition sample_frame :: "(nat, nat list, nat list, string) call_frame" where
  "sample_frame =
     \<lparr>this = sample_type, arg_field = 42, arg_column = [1, 2, 3], arg_ostr = [], arg_istr = [7],
      callback_state = [], thrown = None, returned = Void\<rparr>"

text \<open>A callback that returns the indices of a list one after the other.\<close>

fun next_index :: "nat list \<Rightarrow> nat \<times> nat list" where
  "next_index [] = (0, [])"
| "next_index (n # ns) = (n, ns)"


section \<open>The methods with a body\<close>

text \<open>
  Claim C4.  A data type that does not override \<^verbatim>\<open>getSizeOfField\<close> answers a call by
  throwing: the call returns no value, the exception carries the code \<open>NOT_IMPLEMENTED\<close>
  and the message naming the type, and that code is none of \<open>TYPE_MISMATCH\<close>,
  \<open>TRUNCATED_INPUT\<close>, \<open>MALFORMED_ENCODING\<close>, so a caller can tell it apart.
\<close>

theorem getSizeOfField_not_implemented:
  assumes "getSizeOfField_override d = None"
  shows "getSizeOfField d =
           Inl (Exception (''getSizeOfField() method is not implemented for data type '' @ getName d)
                  NOT_IMPLEMENTED) \<and>
         (case getSizeOfField d of
            Inl e \<Rightarrow>
              code e = NOT_IMPLEMENTED \<and>
              code e \<notin> {TYPE_MISMATCH, TRUNCATED_INPUT, MALFORMED_ENCODING}
          | Inr n \<Rightarrow> False) \<and>
         thrown (invoke M_getSizeOfField (w\<lparr>this := d\<rparr>)) =
           Some (Exception (''getSizeOfField() method is not implemented for data type '' @ getName d)
                  NOT_IMPLEMENTED)"
  using assms by (simp add: getSizeOfField_def IDataType_getSizeOfField_def)

theorem getSizeOfField_not_implemented_witness:
  "getSizeOfField_override sample_type = None \<and>
   getSizeOfField sample_type =
     Inl (Exception ''getSizeOfField() method is not implemented for data type Sample''
            NOT_IMPLEMENTED) \<and>
   thrown (invoke M_getSizeOfField sample_frame) =
     Some (Exception ''getSizeOfField() method is not implemented for data type Sample''
            NOT_IMPLEMENTED)"
proof -
  have h: "getSizeOfField_override sample_type = None" by (simp add: sample_type_def)
  have n: "getName sample_type = ''Sample''" by (simp add: sample_type_def)
  have w: "sample_frame\<lparr>this := sample_type\<rparr> = sample_frame" by (simp add: sample_frame_def)
  show ?thesis
    using h n w getSizeOfField_not_implemented[OF h, of sample_frame] by simp
qed

text \<open>
  Claim C5.  Each of the two methods a concrete type may leave out falls back, on its own,
  to the body of the interface.  A type that does not override \<^verbatim>\<open>isNumeric\<close> answers
  false, and the call throws nothing, whatever else the type overrides.  A type that does
  not override \<^verbatim>\<open>getSizeOfField\<close> reports that it is not supported by throwing
  \<open>NOT_IMPLEMENTED\<close>, whatever else the type overrides.
\<close>

theorem optional_methods_default:
  "(isNumeric_override d = None \<longrightarrow>
      isNumeric d = False \<and>
      thrown (invoke M_isNumeric (w\<lparr>this := d\<rparr>)) = None \<and>
      returned (invoke M_isNumeric (w\<lparr>this := d\<rparr>)) = RetBool False) \<and>
   (getSizeOfField_override d = None \<longrightarrow>
      (\<exists>msg. getSizeOfField d = Inl (Exception msg NOT_IMPLEMENTED)) \<and>
      (\<exists>msg. thrown (invoke M_getSizeOfField (w\<lparr>this := d\<rparr>)) =
               Some (Exception msg NOT_IMPLEMENTED)))"
  by (simp add: isNumeric_def IDataType_isNumeric_def getSizeOfField_def
      IDataType_getSizeOfField_def)

theorem optional_methods_default_witness:
  "isNumeric_override (sample_type\<lparr>getSizeOfField_override := Some (Inr 8)\<rparr>) = None \<and>
   getSizeOfField (sample_type\<lparr>getSizeOfField_override := Some (Inr 8)\<rparr>) = Inr 8 \<and>
   isNumeric (sample_type\<lparr>getSizeOfField_override := Some (Inr 8)\<rparr>) = False \<and>
   returned (invoke M_isNumeric
     (sample_frame\<lparr>this := sample_type\<lparr>getSizeOfField_override := Some (Inr 8)\<rparr>\<rparr>)) =
     RetBool False \<and>
   getSizeOfField_override (sample_type\<lparr>isNumeric_override := Some True\<rparr>) = None \<and>
   isNumeric (sample_type\<lparr>isNumeric_override := Some True\<rparr>) = True \<and>
   (\<exists>msg. getSizeOfField (sample_type\<lparr>isNumeric_override := Some True\<rparr>) =
            Inl (Exception msg NOT_IMPLEMENTED))"
proof -
  let ?sized = "sample_type\<lparr>getSizeOfField_override := Some (Inr 8)\<rparr>"
  let ?numeric = "sample_type\<lparr>isNumeric_override := Some True\<rparr>"
  have h1: "isNumeric_override ?sized = None" by (simp add: sample_type_def)
  have v1: "getSizeOfField ?sized = Inr 8" by (simp add: getSizeOfField_def)
  have h2: "getSizeOfField_override ?numeric = None" by (simp add: sample_type_def)
  have v2: "isNumeric ?numeric = True" by (simp add: isNumeric_def)
  show ?thesis
    using h1 v1 h2 v2
      optional_methods_default[of ?sized sample_frame]
      optional_methods_default[of ?numeric sample_frame]
    by blast
qed


section \<open>The compatibility flag of the quoted text methods\<close>

text \<open>
  Claim C10.  Both quoted text methods take the compatibility flag with the default
  false.  For \<^verbatim>\<open>serializeTextQuoted\<close> and for \<^verbatim>\<open>deserializeTextQuoted\<close> alike: a call that
  leaves the flag out is the call of the method with \<open>False\<close>, the same as passing false; a
  call that passes a flag \<open>c\<close> is the call of the method with that \<open>c\<close>; and the two
  methods resolve the same argument (left out or given) to the same flag, so that reading
  back what was written, with the same argument on both sides, runs both methods with one
  and the same flag.
\<close>

theorem quoted_compatible_default:
  "call_serializeTextQuoted d field ostr None = serializeTextQuoted d field ostr False \<and>
   call_serializeTextQuoted d field ostr None = call_serializeTextQuoted d field ostr (Some False) \<and>
   call_serializeTextQuoted d field ostr (Some c) = serializeTextQuoted d field ostr c \<and>
   call_deserializeTextQuoted d field istr None = deserializeTextQuoted d field istr False \<and>
   call_deserializeTextQuoted d field istr None =
     call_deserializeTextQuoted d field istr (Some False) \<and>
   call_deserializeTextQuoted d field istr (Some c) = deserializeTextQuoted d field istr c \<and>
   serializeTextQuoted_compatible arg = deserializeTextQuoted_compatible arg \<and>
   call_deserializeTextQuoted d field' (snd (call_serializeTextQuoted d field ostr arg)) arg =
     (let flag = (case arg of None \<Rightarrow> False | Some b \<Rightarrow> b)
      in deserializeTextQuoted d field' (snd (serializeTextQuoted d field ostr flag)) flag)"
  by (simp add: call_serializeTextQuoted_def call_deserializeTextQuoted_def
      serializeTextQuoted_compatible_def deserializeTextQuoted_compatible_def Let_def)


section \<open>The order of callback calls\<close>

lemma upt_rows: "[i ..< Suc (i + n)] = i # [Suc i ..< Suc (i + n)]"
  by (simp add: upt_conv_Cons del: upt_Suc)

lemma no_fire:
  assumes "\<forall>v\<in>set vs. \<forall>out. fst (enc v out) = None"
    and "callback = None \<or> next_point \<notin> {i ..< i + length vs}"
  shows "serializeBinary_rows enc callback vs i next_point st =
         st\<lparr>w_ostr := encode_rows enc vs (w_ostr st), w_events := w_events st @ map RowEncoded [i ..< i + length vs]\<rparr>"
  using assms
proof (induction vs arbitrary: i st)
  case Nil
  then show ?case by (simp add: encode_rows_def)
next
  case (Cons v vs)
  from Cons.prems have step: "callback_step callback i next_point st = (next_point, st)"
    by (auto simp: callback_step_def split: option.splits)
  define out where "out = snd (enc v (w_ostr st))"
  have "fst (enc v (w_ostr st)) = None" using Cons.prems(1) by simp
  then have e: "enc v (w_ostr st) = (None, out)"
    by (simp add: out_def prod_eq_iff)
  have "callback = None \<or> next_point \<notin> {Suc i ..< Suc i + length vs}"
    using Cons.prems(2) by auto
  with Cons.IH[of "Suc i"] Cons.prems(1)
  have "serializeBinary_rows enc callback vs (Suc i) next_point (st\<lparr>w_ostr := out, w_events := w_events st @ [RowEncoded i]\<rparr>)
        = (st\<lparr>w_ostr := out, w_events := w_events st @ [RowEncoded i]\<rparr>)\<lparr>w_ostr := encode_rows enc vs out, 
            w_events := (w_events st @ [RowEncoded i]) @ map RowEncoded [Suc i ..< Suc i + length vs]\<rparr>"
    by simp
  then show ?case using step e
    by (simp add: encode_rows_def upt_rows del: upt_Suc)
qed

lemma scheduled_events_Suc:
  "scheduled_events points i (Suc n) =
     (if i \<in> set points then [CallbackInvoked i] else []) @ RowEncoded i # scheduled_events points (Suc i) n"
  by (simp add: scheduled_events_def upt_rows del: upt_Suc)

lemma scheduled_events_cong:
  assumes "\<And>j. i \<le> j \<Longrightarrow> j < i + n \<Longrightarrow> (j \<in> set A) = (j \<in> set B)"
  shows "scheduled_events A i n = scheduled_events B i n"
  unfolding scheduled_events_def
  by (rule arg_cong[where f = concat], rule map_cong) (simp_all add: assms)

lemma scheduled_events_none:
  assumes "\<And>j. i \<le> j \<Longrightarrow> j < i + n \<Longrightarrow> j \<notin> set A"
  shows "scheduled_events A i n = map RowEncoded [i ..< i + n]"
proof -
  have "scheduled_events A i n = scheduled_events [] i n"
    by (rule scheduled_events_cong) (simp add: assms)
  also have "\<dots> = map RowEncoded [i ..< i + n]"
    by (induction n arbitrary: i) (simp_all add: scheduled_events_def upt_rows del: upt_Suc)
  finally show ?thesis .
qed

lemma schedule:
  assumes "\<forall>v\<in>set vs. \<forall>out. fst (enc v out) = None"
    and "fst (callback_returns f (Suc (length ps)) s) = ps @ [fin]"
    and "sorted_wrt (<) (p # ps)"
    and "i \<le> p"
    and "\<forall>j\<in>set (p # ps). j < i + length vs"
    and "i + length vs \<le> fin"
    and "w_callback_state st = s"
  shows "serializeBinary_rows enc (Some f) vs i p st =
         st\<lparr>w_ostr := encode_rows enc vs (w_ostr st),
            w_callback_state := snd (callback_returns f (Suc (length ps)) s),
            w_events := w_events st @ scheduled_events (p # ps) i (length vs)\<rparr>"
  using assms
proof (induction vs arbitrary: i p ps s st)
  case Nil
  then show ?case by simp
next
  case (Cons v vs)
  define out where "out = snd (enc v (w_ostr st))"
  have "fst (enc v (w_ostr st)) = None" using Cons.prems(1) by simp
  then have e: "enc v (w_ostr st) = (None, out)"
    by (simp add: out_def prod_eq_iff)
  have ok: "\<forall>v\<in>set vs. \<forall>out. fst (enc v out) = None" using Cons.prems(1) by simp
  have above: "\<forall>j\<in>set ps. p < j" using Cons.prems(3) by simp
  show ?case
  proof (cases "i = p")
    case False
    with Cons.prems(4) have lt: "i < p" by simp
    have step: "callback_step (Some f) i p st = (p, st)"
      using False by (simp add: callback_step_def)
    have notin: "i \<notin> set (p # ps)" using lt above by auto
    let ?st = "st\<lparr>w_ostr := out, w_events := w_events st @ [RowEncoded i]\<rparr>"
    have "serializeBinary_rows enc (Some f) vs (Suc i) p ?st =
          ?st\<lparr>w_ostr := encode_rows enc vs (w_ostr ?st),
            w_callback_state := snd (callback_returns f (Suc (length ps)) s),
            w_events := w_events ?st @ scheduled_events (p # ps) (Suc i) (length vs)\<rparr>"
      using Cons.prems lt by (intro Cons.IH ok) simp_all
    then show ?thesis using step e notin
      by (simp add: scheduled_events_Suc encode_rows_def)
  next
    case True
    obtain n s' where fs: "f s = (n, s')" by (cases "f s")
    let ?st1 = "st\<lparr>w_callback_state := s', w_events := w_events st @ [CallbackInvoked i]\<rparr>"
    have step: "callback_step (Some f) i p st = (n, ?st1)"
      using True fs Cons.prems(7) by (simp add: callback_step_def)
    let ?st = "?st1\<lparr>w_ostr := out, w_events := w_events ?st1 @ [RowEncoded i]\<rparr>"
    have e1: "enc v (w_ostr ?st1) = (None, out)" using e by simp
    show ?thesis
    proof (cases ps)
      case Nil
      with Cons.prems(2) fs have n: "n = fin" and s': "snd (callback_returns f (Suc (length ps)) s) = s'"
        by simp_all
      have "serializeBinary_rows enc (Some f) vs (Suc i) n ?st =
            ?st\<lparr>w_ostr := encode_rows enc vs (w_ostr ?st),
                w_events := w_events ?st @ map RowEncoded [Suc i ..< Suc i + length vs]\<rparr>"
        using Cons.prems(6) n by (intro no_fire ok) simp
      moreover have "scheduled_events (p # ps) (Suc i) (length vs) = map RowEncoded [Suc i ..< Suc i + length vs]"
        using True Nil by (intro scheduled_events_none) simp
      ultimately show ?thesis using step e1 True s'
        by (simp add: scheduled_events_Suc encode_rows_def)
    next
      case (Cons q qs)
      with Cons.prems(2) fs have n: "n = q"
        and rets: "fst (callback_returns f (Suc (length qs)) s') = qs @ [fin]"
        and s': "snd (callback_returns f (Suc (length ps)) s) = snd (callback_returns f (Suc (length qs)) s')"
        by (simp_all split: prod.splits)
      have "serializeBinary_rows enc (Some f) vs (Suc i) q ?st =
          ?st\<lparr>w_ostr := encode_rows enc vs (w_ostr ?st),
            w_callback_state := snd (callback_returns f (Suc (length qs)) s'),
            w_events := w_events ?st @ scheduled_events (q # qs) (Suc i) (length vs)\<rparr>"
        using Cons.prems(3,5,6) True Cons rets by (intro Cons.IH ok) auto
      moreover have "scheduled_events (p # ps) (Suc i) (length vs) = scheduled_events (q # qs) (Suc i) (length vs)"
        using True Cons by (intro scheduled_events_cong) auto
      ultimately show ?thesis using step e1 True s' n
        by (simp add: scheduled_events_Suc encode_rows_def)
    qed
  qed
qed

lemma fired_append: "fired (xs @ ys) = fired xs @ fired ys"
  by (induction xs rule: fired.induct) simp_all

lemma fired_scheduled_events:
  "fired (scheduled_events A i n) = filter (\<lambda>j. j \<in> set A) [i ..< i + n]"
proof (induction n arbitrary: i)
  case 0
  show ?case by (simp add: scheduled_events_def)
next
  case (Suc n)
  have "fired (scheduled_events A (Suc i) n) = filter (\<lambda>j. j \<in> set A) [Suc i ..< Suc (i + n)]"
    using Suc.IH[of "Suc i"] by simp
  then show ?case
    by (simp add: scheduled_events_Suc fired_append upt_rows del: upt_Suc)
qed

lemma filter_points:
  assumes "sorted_wrt (<) A" and "\<forall>j\<in>set A. j < n"
  shows "filter (\<lambda>j. j \<in> set A) [0 ..< n] = A"
proof (rule sorted_distinct_set_unique)
  show "sorted (filter (\<lambda>j. j \<in> set A) [0 ..< n])" by (simp add: sorted_wrt_filter)
  show "distinct (filter (\<lambda>j. j \<in> set A) [0 ..< n])" by simp
  show "sorted A" "distinct A" using assms(1) strict_sorted_iff by blast+
  show "set (filter (\<lambda>j. j \<in> set A) [0 ..< n]) = set A" using assms(2) by auto
qed

lemma last_scheduled_events:
  "last (scheduled_events A i (Suc n)) = RowEncoded (i + n)"
  by (simp add: scheduled_events_def)

lemma events_extend:
  "\<exists>es. w_events (serializeBinary_rows enc callback vs i next_point st) = w_events st @ es"
proof (induction vs arbitrary: i next_point st)
  case Nil
  show ?case by simp
next
  case (Cons v vs)
  obtain np st1 where step: "callback_step callback i next_point st = (np, st1)"
    by (cases "callback_step callback i next_point st")
  then obtain es1 where es1: "w_events st1 = w_events st @ es1"
    by (auto simp: callback_step_def split: option.splits if_splits prod.splits)
  obtain e out where enc: "enc v (w_ostr st1) = (e, out)" by (cases "enc v (w_ostr st1)")
  show ?case
  proof (cases e)
    case None
    obtain es where "w_events (serializeBinary_rows enc callback vs (Suc i) np
        (st1\<lparr>w_ostr := out, w_events := w_events st1 @ [RowEncoded i]\<rparr>)) =
        w_events (st1\<lparr>w_ostr := out, w_events := w_events st1 @ [RowEncoded i]\<rparr>) @ es"
      using Cons.IH by blast
    then show ?thesis using step enc None es1 by simp
  next
    case (Some x)
    then show ?thesis using step enc es1 by simp
  qed
qed

lemma first_call:
  "\<exists>es. w_events (serializeBinary_column_loop d (v # vs) ostr (Some f) s) = CallbackInvoked 0 # es"
proof -
  let ?st0 = "\<lparr>w_ostr = ostr, w_callback_state = s, w_events = [], w_thrown = None\<rparr>"
  obtain n s' where fs: "f s = (n, s')" by (cases "f s")
  let ?st1 = "?st0\<lparr>w_callback_state := s', w_events := [CallbackInvoked 0]\<rparr>"
  have step: "callback_step (Some f) 0 0 ?st0 = (n, ?st1)"
    using fs by (simp add: callback_step_def)
  obtain e out where enc: "serializeBinary d v ostr = (e, out)" by (cases "serializeBinary d v ostr")
  show ?thesis
  proof (cases e)
    case None
    obtain es where "w_events (serializeBinary_rows (serializeBinary d) (Some f) vs (Suc 0) n
        (?st1\<lparr>w_ostr := out, w_events := w_events ?st1 @ [RowEncoded 0]\<rparr>)) =
        w_events (?st1\<lparr>w_ostr := out, w_events := w_events ?st1 @ [RowEncoded 0]\<rparr>) @ es"
      using events_extend by blast
    then show ?thesis using step enc None by (simp add: serializeBinary_column_loop_def)
  next
    case (Some x)
    then show ?thesis using step enc by (simp add: serializeBinary_column_loop_def)
  qed
qed

text \<open>
  Claim C3.  A callback that is supplied is called immediately before the encoding of row
  0, whatever it returns afterwards.  Let every row of the column encode without an
  exception.  Without a callback the write is the sequential encoding of rows
  \<open>0, \<dots>, N - 1\<close>: no callback event, the callback's state untouched.  With a callback
  whose successive calls return the indices \<open>js\<close> and then \<open>fin\<close>, where \<open>0 # js\<close> is strictly
  increasing and below the number of rows \<open>N\<close> and \<open>fin\<close> is not: the callback is called at
  exactly the rows \<open>0 # js\<close>, in that order, each call immediately before the encoding of
  its row; the last event is the encoding of row \<open>N - 1\<close>, so no call comes after it; and
  the bytes written are those of the sequential encoding.
\<close>

theorem callback_firing_order:
  assumes "\<forall>v\<in>set column. \<forall>out. fst (serializeBinary d v out) = None"
  shows
    "(let st = serializeBinary_column_loop d column ostr None s in
        w_events st = map RowEncoded [0 ..< length column] \<and>
        fired (w_events st) = [] \<and>
        w_callback_state st = s \<and>
        w_ostr st = encode_rows (serializeBinary d) column ostr \<and>
        w_thrown st = None) \<and>
     (fst (callback_returns f (Suc (length js)) s) = js @ [fin] \<and>
      sorted_wrt (<) (0 # js) \<and> (\<forall>j\<in>set (0 # js). j < length column) \<and>
      length column \<le> fin \<longrightarrow>
      (let st = serializeBinary_column_loop d column ostr (Some f) s in
         w_events st = scheduled_events (0 # js) 0 (length column) \<and>
         fired (w_events st) = 0 # js \<and>
         last (w_events st) = RowEncoded (length column - 1) \<and>
         w_callback_state st = snd (callback_returns f (Suc (length js)) s) \<and>
         w_ostr st = encode_rows (serializeBinary d) column ostr \<and>
         w_thrown st = None)) \<and>
     (column \<noteq> [] \<longrightarrow>
        (\<exists>es. w_events (serializeBinary_column_loop d column ostr (Some g) s) =
                CallbackInvoked 0 # es))"
    (is "?none \<and> (?returns \<longrightarrow> ?some) \<and> (?rows \<longrightarrow> ?first)")
proof -
  let ?st0 = "\<lparr>w_ostr = ostr, w_callback_state = s, w_events = [], w_thrown = None\<rparr>"
  have none: "serializeBinary_column_loop d column ostr None s =
        ?st0\<lparr>w_ostr := encode_rows (serializeBinary d) column ostr,
              w_events := map RowEncoded [0 ..< length column]\<rparr>"
    unfolding serializeBinary_column_loop_def
    using no_fire[OF assms, of None 0 0 ?st0] by simp
  have no_calls: "fired (map RowEncoded xs) = []" for xs
    by (induction xs) simp_all
  have part1: ?none
    by (simp add: none no_calls)
  have part2: ?some if h: ?returns
  proof -
    have some: "serializeBinary_column_loop d column ostr (Some f) s =
          ?st0\<lparr>w_ostr := encode_rows (serializeBinary d) column ostr,
                w_callback_state := snd (callback_returns f (Suc (length js)) s),
                w_events := scheduled_events (0 # js) 0 (length column)\<rparr>"
      unfolding serializeBinary_column_loop_def
      using schedule[OF assms, of f js s fin 0 0 ?st0] h by simp
    have calls: "fired (scheduled_events (0 # js) 0 (length column)) = 0 # js"
      using h filter_points[of "0 # js" "length column"]
      by (simp only: fired_scheduled_events) simp
    from h obtain n where n: "length column = Suc n" by (cases "length column") auto
    have l: "last (scheduled_events (0 # js) 0 (length column)) = RowEncoded (length column - 1)"
      unfolding n using last_scheduled_events[of "0 # js" 0 n] by simp
    show ?thesis
      by (simp add: some calls l)
  qed
  have part3: ?first if r: ?rows
  proof -
    from r obtain v vs where "column = v # vs" by (cases column) auto
    then show ?thesis using first_call[of d v vs ostr g s] by simp
  qed
  show ?thesis using part1 part2 part3 by blast
qed

theorem callback_firing_order_witness:
  "fst (callback_returns next_index (Suc (length [2])) [2, 4]) = [2] @ [4] \<and>
   sorted_wrt (<) (0 # [2 :: nat]) \<and>
   length [5, 6, 7, 8 :: nat] \<le> 4 \<and>
   w_events (serializeBinary_column_loop sample_type [5, 6, 7, 8] [] (Some next_index) [2, 4]) =
     [CallbackInvoked 0, RowEncoded 0, RowEncoded 1, CallbackInvoked 2, RowEncoded 2, RowEncoded 3] \<and>
   fired (w_events (serializeBinary_column_loop sample_type [5, 6, 7, 8] [] (Some next_index) [2, 4])) = [0, 2] \<and>
   w_ostr (serializeBinary_column_loop sample_type [5, 6, 7, 8] [] (Some next_index) [2, 4]) = [5, 6, 7, 8] \<and>
   w_events (serializeBinary_column_loop sample_type [5, 6, 7, 8] [] None [2, 4]) =
     [RowEncoded 0, RowEncoded 1, RowEncoded 2, RowEncoded 3]"
proof -
  have ok: "\<forall>v\<in>set [5, 6, 7, 8]. \<forall>out. fst (serializeBinary sample_type v out) = None"
    by (simp add: sample_type_def sample_write_def)
  have ev: "scheduled_events [0, 2] 0 (length [5, 6, 7, 8 :: nat]) =
     [CallbackInvoked 0, RowEncoded 0, RowEncoded 1, CallbackInvoked 2, RowEncoded 2, RowEncoded 3]"
    by (simp add: scheduled_events_def upt_rec)
  have en: "encode_rows (serializeBinary sample_type) [5, 6, 7, 8] [] = [5, 6, 7, 8]"
    by (simp add: encode_rows_def sample_type_def sample_write_def)
  show ?thesis
    using ok ev en
      callback_firing_order[OF ok, where f = next_index and js = "[2]" and s = "[2, 4]"
        and fin = 4 and ostr = "[]"]
    by (simp add: Let_def upt_rec)
qed

end
